theory Spec2Isabelle
  imports Complex_Main "HOL-Library.AList" "HOL-Library.Sublist" "HOL-Library.Log_Nat"
    "HOL-Library.Multiset"
begin

section \<open>Values, documents and responses\<close>

text \<open>
  The handlers of \<^verbatim>\<open>express.js\<close> move JSON values between the request, the
  MongoDB driver and the response. A value is what \<^verbatim>\<open>express.json()\<close> parses or
  what a stored document holds: JavaScript's \<^verbatim>\<open>undefined\<close> (a property that is
  absent), \<^verbatim>\<open>null\<close>, booleans, numbers, strings, arrays, objects, and the
  driver's \<^verbatim>\<open>ObjectId\<close>. A number is a rational: every finite double is one, and
  the one sum computed here is rounded to the nearest double by \<open>to_double\<close>. An
  object is an association list in property order; a property is read with
  \<open>field\<close>, the first binding of the name.

  Each route handler is modelled as it is written, on its own: a function from
  the store and the request to the response and the store left behind. Whether
  the module that registers a handler loads is not part of a handler's model.
  (\<^verbatim>\<open>express.js\<close> declares \<^verbatim>\<open>ObjectId\<close> twice at its top level, in line 5 and in
  line 160. The second file of the repository declares it once and has the same
  handlers, the search excepted, which only \<^verbatim>\<open>express.js\<close> has.)
\<close>

type_synonym oid = string

datatype jsval =
    JUndefined
  | JNull
  | JBool bool
  | JNum rat
  | JStr string
  | JArr "jsval list"
  | JObj "(string \<times> jsval) list"
  | JOid oid

type_synonym document = "(string \<times> jsval) list"

definition field :: "document \<Rightarrow> string \<Rightarrow> jsval" where
  "field doc k = (case map_of doc k of None \<Rightarrow> JUndefined | Some v \<Rightarrow> v)"

text \<open>JavaScript's \<^verbatim>\<open>!x\<close> is \<open>\<not> truthy x\<close>.\<close>

fun truthy :: "jsval \<Rightarrow> bool" where
  "truthy JUndefined = False"
| "truthy JNull = False"
| "truthy (JBool b) = b"
| "truthy (JNum n) = (n \<noteq> 0)"
| "truthy (JStr s) = (s \<noteq> [])"
| "truthy (JArr xs) = True"
| "truthy (JObj kvs) = True"
| "truthy (JOid i) = True"

record response =
  status :: nat
  body :: jsval

definition json :: "nat \<Rightarrow> jsval \<Rightarrow> response" where
  "json code v = \<lparr>status = code, body = v\<rparr>"

definition message :: "string \<Rightarrow> jsval" where
  "message m = JObj [(''message'', JStr m)]"

text \<open>
  What a call can throw. \<open>BSONError\<close> is the \<^verbatim>\<open>ObjectId\<close> constructor's,
  \<open>SyntaxError\<close> the \<^verbatim>\<open>RegExp\<close> constructor's; the others are write errors of
  the server. \<open>External\<close> stands for any error raised by the parts of the runtime
  that the handlers are parametrised over.
\<close>

datatype error =
    BSONError
  | SyntaxError
  | DuplicateKey
  | ImmutableField
  | TypeMismatch
  | BadValue
  | External

section \<open>The store\<close>

text \<open>
  \<^verbatim>\<open>let lessonsCollection, ordersCollection;\<close> A collection is the list of its
  documents in storage order. Handlers run one at a time: each takes the store and
  returns the response together with the store it leaves behind.
\<close>

record db =
  lessonsCollection :: "document list"
  ordersCollection :: "document list"

text \<open>
  \<^verbatim>\<open>new ObjectId(s)\<close> on a string: the string must be 24 hexadecimal digits,
  otherwise the constructor throws. Two spellings that differ in letter case denote
  the same twelve bytes, so the identifier is kept in lower case.
\<close>

definition is_hex :: "char \<Rightarrow> bool" where
  "is_hex c = (c \<in> set ''0123456789abcdefABCDEF'')"

definition to_lower :: "char \<Rightarrow> char" where
  "to_lower c =
     (case map_of (zip ''ABCDEFGHIJKLMNOPQRSTUVWXYZ'' ''abcdefghijklmnopqrstuvwxyz'') c of
        None \<Rightarrow> c
      | Some l \<Rightarrow> l)"

definition ObjectId :: "string \<Rightarrow> error + oid" where
  "ObjectId s =
     (if length s = 24 \<and> list_all is_hex s then Inr (map to_lower s) else Inl BSONError)"

text \<open>
  \<^verbatim>\<open>collection.insertOne(doc)\<close>. The driver gives the document the primary key
  \<open>pk\<close> it has generated when \<^verbatim>\<open>doc._id == null\<close>; the server stores \<open>_id\<close> as
  the first field, refuses an array as \<open>_id\<close> and refuses an \<open>_id\<close> that the
  collection already holds. \<open>pk\<close> is an input: nothing is assumed about the
  generator. Other refusals of the server (a document beyond its size limit, a
  field name it does not store) are not modelled.
\<close>

definition is_array :: "jsval \<Rightarrow> bool" where
  "is_array v = (case v of JArr xs \<Rightarrow> True | _ \<Rightarrow> False)"

definition insertOne :: "document list \<Rightarrow> oid \<Rightarrow> document \<Rightarrow> error + (jsval \<times> document list)" where
  "insertOne coll pk doc =
     (let key = (if field doc ''_id'' = JUndefined \<or> field doc ''_id'' = JNull
                 then JOid pk else field doc ''_id'');
          stored = (''_id'', key) # AList.delete ''_id'' doc
      in if is_array key then Inl BadValue
         else if list_ex (\<lambda>d. field d ''_id'' = key) coll then Inl DuplicateKey
         else Inr (key, coll @ [stored]))"

section \<open>POST /api/lessons\<close>

definition required_fields :: "string list" where
  "required_fields =
     [''topic'', ''price'', ''location'', ''space'', ''category'',
      ''level'', ''duration'', ''image'', ''preview'', ''subject'']"

definition post_lessons :: "db \<Rightarrow> oid \<Rightarrow> document \<Rightarrow> response \<times> db" where
  "post_lessons db pk req_body =
     (let topic = field req_body ''topic'';
          price = field req_body ''price'';
          location = field req_body ''location'';
          space = field req_body ''space'';
          category = field req_body ''category'';
          level = field req_body ''level'';
          duration = field req_body ''duration'';
          image = field req_body ''image'';
          preview = field req_body ''preview'';
          subject = field req_body ''subject''
      in if \<not> truthy topic \<or> \<not> truthy price \<or> \<not> truthy location \<or> \<not> truthy space
            \<or> \<not> truthy category \<or> \<not> truthy level \<or> \<not> truthy duration
            \<or> \<not> truthy image \<or> \<not> truthy preview \<or> \<not> truthy subject
         then (json 400 (message ''Missing required lesson fields''), db)
         else
           (let newLesson =
                  [(''topic'', topic), (''price'', price), (''location'', location),
                   (''space'', space), (''category'', category), (''level'', level),
                   (''duration'', duration), (''image'', image), (''preview'', preview),
                   (''subject'', subject)]
            in case insertOne (lessonsCollection db) pk newLesson of
                 Inl err \<Rightarrow> (json 500 (message ''Server error''), db)
               | Inr (insertedId, coll) \<Rightarrow>
                   (json 201 (JObj [(''message'', JStr ''Lesson added successfully''),
                                    (''lessonId'', insertedId)]),
                    db\<lparr>lessonsCollection := coll\<rparr>)))"

section \<open>Reading and updating one document by its id\<close>

text \<open>\<^verbatim>\<open>collection.findOne({ _id: oid })\<close>: the first document with that \<open>_id\<close>, or \<^verbatim>\<open>null\<close>.\<close>

definition findOne :: "document list \<Rightarrow> oid \<Rightarrow> document option" where
  "findOne coll i = find (\<lambda>d. field d ''_id'' = JOid i) coll"

record update_result =
  matchedCount :: nat
  modifiedCount :: nat

text \<open>
  \<^verbatim>\<open>collection.updateOne({ _id: oid }, update)\<close>: the update is applied to the first
  document with that \<open>_id\<close>; an update the server refuses writes nothing.
  \<open>modifiedCount\<close> is 1 only when the document has changed.
\<close>

type_synonym update = "document \<Rightarrow> error + document"

fun updateOne ::
  "document list \<Rightarrow> oid \<Rightarrow> update \<Rightarrow> error + (update_result \<times> document list)" where
  "updateOne [] i upd = Inr (\<lparr>matchedCount = 0, modifiedCount = 0\<rparr>, [])"
| "updateOne (d # ds) i upd =
     (if field d ''_id'' = JOid i
      then (case upd d of
              Inl err \<Rightarrow> Inl err
            | Inr d' \<Rightarrow> Inr (\<lparr>matchedCount = 1, modifiedCount = (if d' = d then 0 else 1)\<rparr>, d' # ds))
      else (case updateOne ds i upd of
              Inl err \<Rightarrow> Inl err
            | Inr (r, ds') \<Rightarrow> Inr (r, d # ds')))"

text \<open>
  \<^verbatim>\<open>{ $set: updates }\<close>. The server reads the update before it looks for the
  document, and refuses it as a whole when it cannot read a key. A key that is a
  plain field name sets that top-level field, replacing its value in place or
  appending the field. \<open>_id\<close> is immutable: applied to a document, a value other
  than the stored one is refused. Any other key (empty, with a dot, or starting
  with a dollar sign) is path notation of the server; whether the server accepts
  it, and what it does to a document, is the parameter \<open>path\<close>.
\<close>

definition plain_name :: "string \<Rightarrow> bool" where
  "plain_name k = (case k of [] \<Rightarrow> False | c # cs \<Rightarrow> c \<noteq> CHR ''$'' \<and> \<not> list_ex (\<lambda>x. x = CHR ''.'') k)"

type_synonym path_update = "string \<Rightarrow> jsval \<Rightarrow> error + update"

definition set_field :: "path_update \<Rightarrow> string \<Rightarrow> jsval \<Rightarrow> error + update" where
  "set_field path k v =
     (if k = ''_id''
      then Inr (\<lambda>doc. if field doc ''_id'' = v then Inr doc else Inl ImmutableField)
      else if plain_name k then Inr (\<lambda>doc. Inr (AList.update k v doc))
      else path k v)"

fun set_op :: "path_update \<Rightarrow> document \<Rightarrow> error + update" where
  "set_op path [] = Inr Inr"
| "set_op path ((k, v) # updates) =
     (case set_field path k v of
        Inl err \<Rightarrow> Inl err
      | Inr first \<Rightarrow>
          (case set_op path updates of
             Inl err \<Rightarrow> Inl err
           | Inr rest \<Rightarrow>
               Inr (\<lambda>doc. case first doc of Inl err \<Rightarrow> Inl err | Inr doc' \<Rightarrow> rest doc')))"

text \<open>
  Stored numbers are IEEE 754 doubles, and a sum of two of them is the double
  nearest to the exact sum, a tie going to the even significand. \<open>to_double\<close> is
  that rounding: the value is written as an integer multiple of \<open>2^e\<close> with
  \<open>e = ulp_exponent x\<close>, chosen so that the multiple has at most 53 bits (and
  \<open>e\<close> no less than \<open>-1074\<close>, the subnormal range), and the multiple is rounded to
  an integer. \<open>ilog2 x\<close> is the integral part of the binary logarithm of a
  positive \<open>x\<close>. Overflow to infinity is left out: adding \<open>-1\<close> to a double
  never overflows.
\<close>

definition round_even :: "rat \<Rightarrow> int" where
  "round_even x =
     (let f = \<lfloor>x\<rfloor>; r = x - of_int f
      in if r < 1 / 2 then f else if 1 / 2 < r then f + 1 else if even f then f else f + 1)"

definition ilog2 :: "rat \<Rightarrow> int" where
  "ilog2 x =
     (if 1 \<le> x then bitlen \<lfloor>x\<rfloor> - 1
      else (let b = bitlen \<lfloor>1 / x\<rfloor> in if x * 2 ^ nat (b - 1) = 1 then 1 - b else - b))"

definition ulp_exponent :: "rat \<Rightarrow> int" where
  "ulp_exponent x = max (ilog2 \<bar>x\<bar> - 52) (- 1074)"

definition to_double :: "rat \<Rightarrow> rat" where
  "to_double x =
     (if x = 0 then 0
      else of_int (round_even (x / 2 powi ulp_exponent x)) * 2 powi ulp_exponent x)"

definition is_double :: "rat \<Rightarrow> bool" where
  "is_double x = (to_double x = x)"

text \<open>
  \<^verbatim>\<open>{ $inc: { k: amount } }\<close>: a number is increased, the sum rounded as above; an
  absent field is created with the amount; any other value is refused.
\<close>

definition inc_op :: "string \<Rightarrow> rat \<Rightarrow> update" where
  "inc_op k amount doc =
     (case map_of doc k of
        None \<Rightarrow> Inr (AList.update k (JNum amount) doc)
      | Some (JNum n) \<Rightarrow> Inr (AList.update k (JNum (to_double (n + amount))) doc)
      | Some _ \<Rightarrow> Inl TypeMismatch)"

section \<open>PUT /api/lessons/:id\<close>

definition put_lesson :: "path_update \<Rightarrow> db \<Rightarrow> string \<Rightarrow> document \<Rightarrow> response \<times> db" where
  "put_lesson path db lessonId updates =
     (if length (map fst updates) = 0
      then (json 400 (message ''No fields provided to update''), db)
      else case ObjectId lessonId of
             Inl err \<Rightarrow> (json 500 (message ''Server error''), db)
           | Inr i \<Rightarrow>
               (case set_op path updates of
                  Inl err \<Rightarrow> (json 500 (message ''Server error''), db)
                | Inr set_updates \<Rightarrow>
                    (case updateOne (lessonsCollection db) i set_updates of
                       Inl err \<Rightarrow> (json 500 (message ''Server error''), db)
                     | Inr (result, coll) \<Rightarrow>
                         if matchedCount result = 0
                         then (json 404 (message ''Lesson not found''),
                               db\<lparr>lessonsCollection := coll\<rparr>)
                         else (json 200 (message ''Lesson updated successfully''),
                               db\<lparr>lessonsCollection := coll\<rparr>))))"

section \<open>POST /api/orders\<close>

definition post_orders :: "db \<Rightarrow> oid \<Rightarrow> document \<Rightarrow> response \<times> db" where
  "post_orders db pk order =
     (case insertOne (ordersCollection db) pk order of
        Inl err \<Rightarrow> (json 400 (message ''Insert failed''), db)
      | Inr (insertedId, coll) \<Rightarrow>
          (json 201 (message ''Order saved successfully''), db\<lparr>ordersCollection := coll\<rparr>))"

section \<open>PUT /api/lessons/:id/decrement\<close>

text \<open>
  \<^verbatim>\<open>lesson.space <= 0\<close> compares numbers: the left operand goes through
  JavaScript's ToNumber, and a comparison with NaN is false. ToNumber of a string or
  of an object (parsing a numeric literal, \<^verbatim>\<open>toString\<close>) is the parameter
  \<open>coerce\<close>, with \<open>None\<close> for NaN. The handler builds the identifier twice from
  the same string; the second construction cannot throw when the first has not, and
  the model builds it once.
\<close>

fun ToNumber :: "(jsval \<Rightarrow> rat option) \<Rightarrow> jsval \<Rightarrow> rat option" where
  "ToNumber coerce JUndefined = None"
| "ToNumber coerce JNull = Some 0"
| "ToNumber coerce (JBool b) = Some (if b then 1 else 0)"
| "ToNumber coerce (JNum n) = Some n"
| "ToNumber coerce v = coerce v"

definition js_le :: "(jsval \<Rightarrow> rat option) \<Rightarrow> jsval \<Rightarrow> rat \<Rightarrow> bool" where
  "js_le coerce v n = (case ToNumber coerce v of None \<Rightarrow> False | Some m \<Rightarrow> m \<le> n)"

definition put_decrement :: "(jsval \<Rightarrow> rat option) \<Rightarrow> db \<Rightarrow> string \<Rightarrow> response \<times> db" where
  "put_decrement coerce db lessonId =
     (case ObjectId lessonId of
        Inl err \<Rightarrow> (json 500 (message ''Server error''), db)
      | Inr i \<Rightarrow>
          (case findOne (lessonsCollection db) i of
             None \<Rightarrow> (json 404 (message ''Lesson not found''), db)
           | Some lesson \<Rightarrow>
               if js_le coerce (field lesson ''space'') 0
               then (json 400 (message ''No spaces left for this lesson''), db)
               else (case updateOne (lessonsCollection db) i (inc_op ''space'' (- 1)) of
                       Inl err \<Rightarrow> (json 500 (message ''Server error''), db)
                     | Inr (result, coll) \<Rightarrow>
                         if modifiedCount result = 1
                         then (json 200 (message ''Lesson space decremented successfully''),
                               db\<lparr>lessonsCollection := coll\<rparr>)
                         else (json 400 (message ''Failed to update lesson space''),
                               db\<lparr>lessonsCollection := coll\<rparr>))))"

section \<open>GET /api/lessons/search\<close>














section \<open>The capacity invariant\<close>

text \<open>The data model's \<open>space\<close>: a number that is a non-negative integer.\<close>

definition space_ok :: "document \<Rightarrow> bool" where
  "space_ok d = (case field d ''space'' of JNum n \<Rightarrow> 0 \<le> n \<and> n = of_int \<lfloor>n\<rfloor> | _ \<Rightarrow> False)"

section \<open>A concrete store\<close>

text \<open>
  The lesson of the specification's scenario, stored under an identifier, and
  instances of the three parameters for requests that do not reach them.
\<close>

definition math_id :: string where
  "math_id = ''64b7f3a2c9e1d4a5b6c7d8e9''"

definition math_payload :: document where
  "math_payload =
     [(''topic'', JStr ''Math''), (''price'', JNum 10), (''location'', JStr ''Room1''),
      (''space'', JNum 5), (''category'', JStr ''Science''), (''level'', JStr ''Beginner''),
      (''duration'', JStr ''1h''), (''image'', JStr ''math.png''), (''preview'', JStr ''p''),
      (''subject'', JStr ''Math'')]"

definition math_lesson :: document where
  "math_lesson = (''_id'', JOid math_id) # math_payload"

definition shop :: db where
  "shop = \<lparr>lessonsCollection = [math_lesson], ordersCollection = []\<rparr>"

definition first_order :: document where
  "first_order = [(''_id'', JStr ''o1''), (''qty'', JNum 2)]"

definition reject_path :: path_update where
  "reject_path k v = Inl External"

definition nan_coerce :: "jsval \<Rightarrow> rat option" where
  "nan_coerce v = None"


section \<open>Facts about the store\<close>

lemmas store_eval =
  ObjectId_def math_id_def is_hex_def to_lower_def shop_def math_lesson_def math_payload_def
  findOne_def field_def json_def message_def

lemma field_update_same: "field (AList.update k v d) k = v"
  by (simp add: field_def update_conv')

lemma field_update_other: "k' \<noteq> k \<Longrightarrow> field (AList.update k v d) k' = field d k'"
  by (simp add: field_def update_conv')

lemma update_changes: "field d k \<noteq> v \<Longrightarrow> AList.update k v d \<noteq> d"
  using field_update_same [of k v d] by auto

lemma findOne_Some_split:
  "findOne coll i = Some d \<Longrightarrow>
   \<exists>pre post. coll = pre @ d # post \<and> findOne pre i = None \<and> field d ''_id'' = JOid i"
proof (induction coll)
  case Nil
  then show ?case by (simp add: findOne_def)
next
  case (Cons x xs)
  show ?case
  proof (cases "field x ''_id'' = JOid i")
    case True
    with Cons.prems have "x = d" by (simp add: findOne_def)
    with True have "x # xs = [] @ d # xs \<and> findOne [] i = None \<and> field d ''_id'' = JOid i"
      by (simp add: findOne_def)
    then show ?thesis by blast
  next
    case False
    with Cons.prems have "findOne xs i = Some d" by (simp add: findOne_def)
    from Cons.IH [OF this] obtain pre post where
      "xs = pre @ d # post" "findOne pre i = None" "field d ''_id'' = JOid i" by blast
    with False have
      "x # xs = (x # pre) @ d # post \<and> findOne (x # pre) i = None \<and> field d ''_id'' = JOid i"
      by (simp add: findOne_def)
    then show ?thesis by blast
  qed
qed

lemma findOne_matched:
  "findOne pre i = None \<Longrightarrow> field d ''_id'' = JOid i \<Longrightarrow> findOne (pre @ d # post) i = Some d"
  by (induction pre) (auto simp: findOne_def split: if_splits)

lemma updateOne_unmatched:
  "findOne coll i = None \<Longrightarrow>
   updateOne coll i upd = Inr (\<lparr>matchedCount = 0, modifiedCount = 0\<rparr>, coll)"
  by (induction coll) (auto simp: findOne_def split: if_splits)

lemma updateOne_matched:
  "findOne pre i = None \<Longrightarrow> field d ''_id'' = JOid i \<Longrightarrow>
   updateOne (pre @ d # post) i upd =
     (case upd d of
        Inl err \<Rightarrow> Inl err
      | Inr d' \<Rightarrow>
          Inr (\<lparr>matchedCount = 1, modifiedCount = (if d' = d then 0 else 1)\<rparr>, pre @ d' # post))"
  by (induction pre) (auto simp: findOne_def split: if_splits sum.splits)

lemma inc_op_num:
  "field d k = JNum n \<Longrightarrow>
   inc_op k a d = Inr (AList.update k (JNum (to_double (n + a))) d)"
  by (auto simp: inc_op_def field_def split: option.splits)

lemma update_same: "field d k = JNum n \<Longrightarrow> AList.update k (JNum n) d = d"
  by (rule update_triv) (auto simp: field_def split: option.splits)

section \<open>Rounding to a double\<close>

lemma round_even_of_int: "round_even (of_int m) = m"
  by (simp add: round_even_def)

lemma round_even_nonneg: "0 \<le> x \<Longrightarrow> 0 \<le> round_even x"
  by (auto simp: round_even_def Let_def)

lemma scaled_exact:
  assumes "e \<le> 0"
  shows "of_int (round_even (of_int m / 2 powi e)) * 2 powi e = (of_int m :: rat)"
proof -
  have p: "(2::rat) powi e = inverse (2 ^ nat (- e))"
    using assms by (simp add: power_int_def power_one_over inverse_eq_divide)
  have "(of_int m :: rat) / 2 powi e = of_int (m * 2 ^ nat (- e))"
    by (simp add: p divide_inverse)
  then have "round_even (of_int m / 2 powi e) = m * 2 ^ nat (- e)"
    by (simp only: round_even_of_int)
  then show ?thesis
    by (simp add: p)
qed

lemma to_double_natural:
  assumes "0 \<le> m"
  shows "\<exists>j\<ge>0. to_double (of_int m) = of_int j"
proof (cases "m = 0")
  case True
  then show ?thesis by (auto simp: to_double_def)
next
  case False
  let ?e = "ulp_exponent (of_int m)"
  show ?thesis
  proof (cases "?e \<le> 0")
    case True
    have "to_double (of_int m) = of_int m"
      using False scaled_exact [OF True, of m] by (simp add: to_double_def)
    with assms show ?thesis by blast
  next
    case e: False
    let ?r = "round_even (of_int m / 2 powi ?e)"
    have p: "(2::rat) powi ?e = of_int (2 ^ nat ?e)"
      using e by (simp add: power_int_def)
    have "0 \<le> (of_int m :: rat) / 2 powi ?e"
      using assms by (simp add: p)
    then have r: "0 \<le> ?r"
      by (rule round_even_nonneg)
    have "to_double (of_int m) = of_int (?r * 2 ^ nat ?e)"
      using False by (simp add: to_double_def p)
    moreover have "0 \<le> ?r * 2 ^ nat ?e"
      using r by simp
    ultimately show ?thesis by blast
  qed
qed

lemma ulp_exponent_small:
  assumes "0 < m" and "m < 2 ^ 53"
  shows "ulp_exponent (of_int m) \<le> 0"
proof -
  have one: "(1::rat) \<le> of_int m"
    using assms(1) by simp
  have "bitlen m \<le> 53"
    using assms(2) by (simp add: bitlen_le_iff_power)
  then have "ilog2 (of_int m) \<le> 52"
    using one by (simp add: ilog2_def)
  moreover have "\<bar>of_int m :: rat\<bar> = of_int m"
    using assms(1) by simp
  ultimately show ?thesis
    by (simp add: ulp_exponent_def)
qed

lemma to_double_2_53: "to_double 9007199254740992 = 9007199254740992"
  by code_simp

lemma to_double_integer:
  assumes "0 \<le> m" and "m \<le> 2 ^ 53"
  shows "to_double (of_int m) = of_int m"
proof -
  consider "m = 0" | "0 < m" "m < 2 ^ 53" | "m = 2 ^ 53"
    using assms by linarith
  then show ?thesis
  proof cases
    case 1
    then show ?thesis by (simp add: to_double_def)
  next
    case 2
    then have "m \<noteq> 0" by simp
    then show ?thesis
      using scaled_exact [OF ulp_exponent_small [OF 2], of m] by (simp add: to_double_def)
  next
    case 3
    then show ?thesis using to_double_2_53 by simp
  qed
qed

lemma to_double_4: "to_double 4 = 4"
  by code_simp

lemma to_double_minus_half: "to_double (- (1 / 2)) = - (1 / 2)"
  by code_simp

lemma to_double_1e16: "to_double 9999999999999999 = 10000000000000000"
  by code_simp

lemma to_double_2_53_plus_1: "to_double 9007199254740993 = 9007199254740992"
  by code_simp

section \<open>The conditional decrement\<close>

lemma decrement_write:
  assumes "ObjectId lessonId = Inr i"
    and "lessonsCollection db = pre @ lesson # post"
    and "findOne pre i = None"
    and "field lesson ''_id'' = JOid i"
    and "field lesson ''space'' = JNum N"
    and "0 < N"
  shows "put_decrement coerce db lessonId =
           (if to_double (N - 1) = N
            then (json 400 (message ''Failed to update lesson space''), db)
            else (json 200 (message ''Lesson space decremented successfully''),
                  db\<lparr>lessonsCollection :=
                       pre @ AList.update ''space'' (JNum (to_double (N - 1))) lesson # post\<rparr>))"
proof -
  let ?d' = "AList.update ''space'' (JNum (to_double (N - 1))) lesson"
  have found: "findOne (lessonsCollection db) i = Some lesson"
    using findOne_matched [OF assms(3,4), of post] assms(2) by simp
  have inc: "inc_op ''space'' (- 1) lesson = Inr ?d'"
    using inc_op_num [OF assms(5), of "- 1"] by simp
  have upd: "updateOne (lessonsCollection db) i (inc_op ''space'' (- 1)) =
      Inr (\<lparr>matchedCount = 1, modifiedCount = (if ?d' = lesson then 0 else 1)\<rparr>,
           pre @ ?d' # post)"
    using updateOne_matched [OF assms(3,4), of post "inc_op ''space'' (- 1)"] inc assms(2)
    by simp
  have le: "\<not> js_le coerce (field lesson ''space'') 0"
    using assms(5,6) by (simp add: js_le_def)
  have step: "put_decrement coerce db lessonId =
      (if ?d' = lesson
       then (json 400 (message ''Failed to update lesson space''),
             db\<lparr>lessonsCollection := pre @ ?d' # post\<rparr>)
       else (json 200 (message ''Lesson space decremented successfully''),
             db\<lparr>lessonsCollection := pre @ ?d' # post\<rparr>))"
    unfolding put_decrement_def using assms(1) found le upd by simp
  show ?thesis
  proof (cases "to_double (N - 1) = N")
    case True
    then have same: "?d' = lesson"
      using update_same [OF assms(5)] by simp
    then have "db\<lparr>lessonsCollection := pre @ ?d' # post\<rparr> = db"
      using assms(2) by simp
    with step same True show ?thesis by simp
  next
    case False
    then have "?d' \<noteq> lesson"
      using update_changes [of lesson "''space''" "JNum (to_double (N - 1))"] assms(5) by simp
    with step False show ?thesis by simp
  qed
qed

text \<open>
  Claim C2, as amended. A lesson is in storage under the id, with \<open>space = N\<close>,
  \<open>N > 0\<close>, and \<open>N - 1\<close> is a double, which it is for every integer \<open>N\<close> from 1
  to \<open>2^53\<close>. The decrement answers 200 with the message
  \<^verbatim>\<open>Lesson space decremented successfully\<close>; the store it leaves differs from the
  old one in that one document only, which is the lesson with \<open>space\<close> set to
  \<open>N - 1\<close> and every other field as before.
\<close>

theorem put_decrement_success:
  "(ObjectId lessonId = Inr i \<and>
    findOne (lessonsCollection db) i = Some lesson \<and>
    field lesson ''space'' = JNum N \<and> 0 < N \<and> is_double (N - 1) \<longrightarrow>
      (\<exists>pre post d'.
         lessonsCollection db = pre @ lesson # post \<and>
         put_decrement coerce db lessonId =
           (json 200 (message ''Lesson space decremented successfully''),
            db\<lparr>lessonsCollection := pre @ d' # post\<rparr>) \<and>
         d' = AList.update ''space'' (JNum (N - 1)) lesson \<and>
         d' \<noteq> lesson \<and>
         field d' ''space'' = JNum (N - 1) \<and>
         (\<forall>k. k \<noteq> ''space'' \<longrightarrow> field d' k = field lesson k))) \<and>
   (0 < N \<and> N = of_int \<lfloor>N\<rfloor> \<and> N \<le> 2 ^ 53 \<longrightarrow> is_double (N - 1))"
proof (intro conjI impI)
  assume a: "ObjectId lessonId = Inr i \<and>
    findOne (lessonsCollection db) i = Some lesson \<and>
    field lesson ''space'' = JNum N \<and> 0 < N \<and> is_double (N - 1)"
  then have id: "ObjectId lessonId = Inr i"
    and found: "findOne (lessonsCollection db) i = Some lesson"
    and space: "field lesson ''space'' = JNum N"
    and pos: "0 < N"
    and exact: "to_double (N - 1) = N - 1"
    by (simp_all add: is_double_def)
  from findOne_Some_split [OF found] obtain pre post where
    split: "lessonsCollection db = pre @ lesson # post" "findOne pre i = None"
      "field lesson ''_id'' = JOid i"
    by blast
  let ?d' = "AList.update ''space'' (JNum (N - 1)) lesson"
  have r: "put_decrement coerce db lessonId =
          (json 200 (message ''Lesson space decremented successfully''),
           db\<lparr>lessonsCollection := pre @ ?d' # post\<rparr>)"
    using decrement_write [OF id split space pos, of coerce] exact by simp
  have neq: "?d' \<noteq> lesson"
    using update_changes [of lesson "''space''" "JNum (N - 1)"] space by simp
  have new: "field ?d' ''space'' = JNum (N - 1)"
    by (rule field_update_same)
  have frame: "\<forall>k. k \<noteq> ''space'' \<longrightarrow> field ?d' k = field lesson k"
    by (simp add: field_update_other)
  show "\<exists>pre post d'.
         lessonsCollection db = pre @ lesson # post \<and>
         put_decrement coerce db lessonId =
           (json 200 (message ''Lesson space decremented successfully''),
            db\<lparr>lessonsCollection := pre @ d' # post\<rparr>) \<and>
         d' = AList.update ''space'' (JNum (N - 1)) lesson \<and>
         d' \<noteq> lesson \<and>
         field d' ''space'' = JNum (N - 1) \<and>
         (\<forall>k. k \<noteq> ''space'' \<longrightarrow> field d' k = field lesson k)"
    by (intro exI [of _ pre] exI [of _ post] exI [of _ ?d'] conjI split(1) r refl neq new frame)
next
  assume b: "0 < N \<and> N = of_int \<lfloor>N\<rfloor> \<and> N \<le> 2 ^ 53"
  let ?m = "\<lfloor>N\<rfloor> - 1"
  from b have N: "N = of_int \<lfloor>N\<rfloor>"
    by simp
  from b have "(0::rat) < of_int \<lfloor>N\<rfloor>" and "(of_int \<lfloor>N\<rfloor> :: rat) \<le> of_int (2 ^ 53)"
    by simp_all
  then have "0 < \<lfloor>N\<rfloor>" and "\<lfloor>N\<rfloor> \<le> 2 ^ 53"
    by (simp_all only: of_int_0_less_iff of_int_le_iff)
  then have m: "0 \<le> ?m" "?m \<le> 2 ^ 53"
    by simp_all
  have "N - 1 = of_int ?m"
    using N by simp
  then show "is_double (N - 1)"
    using to_double_integer [OF m] by (simp add: is_double_def)
qed

theorem put_decrement_success_witness:
  "is_double (5 - 1) \<and>
   (\<exists>pre post d'.
      lessonsCollection shop = pre @ math_lesson # post \<and>
      put_decrement nan_coerce shop math_id =
        (json 200 (message ''Lesson space decremented successfully''),
         shop\<lparr>lessonsCollection := pre @ d' # post\<rparr>) \<and>
      d' = AList.update ''space'' (JNum (5 - 1)) math_lesson \<and>
      d' \<noteq> math_lesson \<and>
      field d' ''space'' = JNum (5 - 1) \<and>
      (\<forall>k. k \<noteq> ''space'' \<longrightarrow> field d' k = field math_lesson k))"
proof -
  have h1: "ObjectId math_id = Inr math_id"
    by (simp add: store_eval)
  have h2: "findOne (lessonsCollection shop) math_id = Some math_lesson"
    by (simp add: store_eval)
  have h3: "field math_lesson ''space'' = JNum 5"
    by (simp add: store_eval)
  have h4: "(0::rat) < 5"
    by simp
  have h5: "(0::rat) < 5 \<and> (5::rat) = of_int \<lfloor>5::rat\<rfloor> \<and> (5::rat) \<le> 2 ^ 53"
    by simp
  have d: "is_double (5 - 1)"
    by (rule put_decrement_success [THEN conjunct2, THEN mp, OF h5])
  have "\<exists>pre post d'.
      lessonsCollection shop = pre @ math_lesson # post \<and>
      put_decrement nan_coerce shop math_id =
        (json 200 (message ''Lesson space decremented successfully''),
         shop\<lparr>lessonsCollection := pre @ d' # post\<rparr>) \<and>
      d' = AList.update ''space'' (JNum (5 - 1)) math_lesson \<and>
      d' \<noteq> math_lesson \<and>
      field d' ''space'' = JNum (5 - 1) \<and>
      (\<forall>k. k \<noteq> ''space'' \<longrightarrow> field d' k = field math_lesson k)"
    by (rule put_decrement_success [THEN conjunct1, THEN mp]) (rule conjI h1 h2 h3 h4 d)+
  with d show ?thesis
    by (intro conjI)
qed

theorem put_decrement_rounding_counterexample:
  "field (AList.update ''space'' (JNum 10000000000000000) math_lesson) ''space'' =
     JNum 10000000000000000 \<and>
   put_decrement nan_coerce
     (shop\<lparr>lessonsCollection := [AList.update ''space'' (JNum 10000000000000000) math_lesson]\<rparr>)
     math_id =
     (json 400 (message ''Failed to update lesson space''),
      shop\<lparr>lessonsCollection := [AList.update ''space'' (JNum 10000000000000000) math_lesson]\<rparr>) \<and>
   put_decrement nan_coerce
     (shop\<lparr>lessonsCollection := [AList.update ''space'' (JNum 9007199254740994) math_lesson]\<rparr>)
     math_id =
     (json 200 (message ''Lesson space decremented successfully''),
      shop\<lparr>lessonsCollection := [AList.update ''space'' (JNum 9007199254740992) math_lesson]\<rparr>)"
proof -
  have "field (AList.update ''space'' (JNum 10000000000000000) math_lesson) ''space'' =
     JNum 10000000000000000"
    by (rule field_update_same)
  moreover have "put_decrement nan_coerce
     (shop\<lparr>lessonsCollection := [AList.update ''space'' (JNum 10000000000000000) math_lesson]\<rparr>)
     math_id =
     (json 400 (message ''Failed to update lesson space''),
      shop\<lparr>lessonsCollection := [AList.update ''space'' (JNum 10000000000000000) math_lesson]\<rparr>)"
    by (simp add: store_eval put_decrement_def js_le_def inc_op_def to_double_1e16)
  moreover have "put_decrement nan_coerce
     (shop\<lparr>lessonsCollection := [AList.update ''space'' (JNum 9007199254740994) math_lesson]\<rparr>)
     math_id =
     (json 200 (message ''Lesson space decremented successfully''),
      shop\<lparr>lessonsCollection := [AList.update ''space'' (JNum 9007199254740992) math_lesson]\<rparr>)"
    by (simp add: store_eval put_decrement_def js_le_def inc_op_def to_double_2_53_plus_1)
  ultimately show ?thesis
    by (intro conjI)
qed

text \<open>
  Claim C3. A lesson is in storage under the id, with a number \<open>space \<le> 0\<close>. The
  decrement answers 400 with the message \<^verbatim>\<open>No spaces left for this lesson\<close> and
  leaves the whole store as it was.
\<close>

theorem put_decrement_no_capacity:
  assumes "ObjectId lessonId = Inr i"
    and "findOne (lessonsCollection db) i = Some lesson"
    and "field lesson ''space'' = JNum N"
    and "N \<le> 0"
  shows "put_decrement coerce db lessonId =
           (json 400 (message ''No spaces left for this lesson''), db)"
  unfolding put_decrement_def using assms by (simp add: js_le_def)

theorem put_decrement_no_capacity_witness:
  "put_decrement nan_coerce
     (shop\<lparr>lessonsCollection := [AList.update ''space'' (JNum 0) math_lesson]\<rparr>) math_id =
   (json 400 (message ''No spaces left for this lesson''),
    shop\<lparr>lessonsCollection := [AList.update ''space'' (JNum 0) math_lesson]\<rparr>)"
proof -
  let ?db = "shop\<lparr>lessonsCollection := [AList.update ''space'' (JNum 0) math_lesson]\<rparr>"
  let ?lesson = "AList.update ''space'' (JNum 0) math_lesson"
  have h1: "ObjectId math_id = Inr math_id"
    by (simp add: store_eval)
  have h2: "findOne (lessonsCollection ?db) math_id = Some ?lesson"
    by (simp add: store_eval)
  have h3: "field ?lesson ''space'' = JNum 0"
    by (rule field_update_same)
  have h4: "(0::rat) \<le> 0"
    by simp
  show ?thesis
    by (rule put_decrement_no_capacity [OF h1 h2 h3 h4])
qed

text \<open>
  Claim C4. The id denotes an identifier under which storage holds no lesson. The
  decrement answers 404 with the message \<^verbatim>\<open>Lesson not found\<close> and leaves the
  whole store as it was.
\<close>

theorem put_decrement_not_found:
  assumes "ObjectId lessonId = Inr i"
    and "findOne (lessonsCollection db) i = None"
  shows "put_decrement coerce db lessonId = (json 404 (message ''Lesson not found''), db)"
  unfolding put_decrement_def using assms by simp

theorem put_decrement_not_found_witness:
  "put_decrement nan_coerce shop ''64B7F3A2C9E1D4A5B6C7D8E0'' =
     (json 404 (message ''Lesson not found''), shop)"
proof -
  have h1: "ObjectId ''64B7F3A2C9E1D4A5B6C7D8E0'' = Inr ''64b7f3a2c9e1d4a5b6c7d8e0''"
    by (simp add: store_eval)
  have h2: "findOne (lessonsCollection shop) ''64b7f3a2c9e1d4a5b6c7d8e0'' = None"
    by (simp add: store_eval)
  show ?thesis
    by (rule put_decrement_not_found [OF h1 h2])
qed

lemma space_ok_decrement:
  assumes "space_ok d" and "field d ''space'' = JNum N" and "0 < N"
  shows "space_ok (AList.update ''space'' (JNum (to_double (N - 1))) d)"
proof -
  from assms(1,2) have int: "N = of_int \<lfloor>N\<rfloor>"
    by (simp add: space_ok_def)
  with assms(3) have "0 < \<lfloor>N\<rfloor>"
    by (metis of_int_0_less_iff)
  then have m: "0 \<le> \<lfloor>N\<rfloor> - 1"
    by simp
  have "N - 1 = of_int (\<lfloor>N\<rfloor> - 1)"
    using int by simp
  with to_double_natural [OF m] obtain j where j: "0 \<le> j" "to_double (N - 1) = of_int j"
    by auto
  then show ?thesis
    by (simp add: space_ok_def field_update_same)
qed

text \<open>
  Claim C1, as amended. If every stored lesson has a \<open>space\<close> that is a
  non-negative integer, then so has every stored lesson after a conditional
  decrement, whatever the request and whatever its outcome. (Insert and partial
  update store the \<open>space\<close> they are given: see the counterexample.)
\<close>

theorem put_decrement_keeps_space_ok:
  assumes "list_all space_ok (lessonsCollection db)"
  shows "list_all space_ok (lessonsCollection (snd (put_decrement coerce db lessonId)))"
proof (cases "ObjectId lessonId")
  case (Inl err)
  then show ?thesis
    using assms by (simp add: put_decrement_def)
next
  case (Inr i)
  show ?thesis
  proof (cases "findOne (lessonsCollection db) i")
    case None
    with Inr show ?thesis
      using assms by (simp add: put_decrement_def)
  next
    case (Some lesson)
    from findOne_Some_split [OF Some] obtain pre post where
      split: "lessonsCollection db = pre @ lesson # post" "findOne pre i = None"
        "field lesson ''_id'' = JOid i"
      by blast
    from assms split(1) have ok: "space_ok lesson" "list_all space_ok pre" "list_all space_ok post"
      by simp_all
    from ok(1) obtain N where N: "field lesson ''space'' = JNum N"
      by (auto simp: space_ok_def split: jsval.splits)
    show ?thesis
    proof (cases "0 < N")
      case True
      note w = decrement_write [OF Inr split N True, of coerce]
      show ?thesis
      proof (cases "to_double (N - 1) = N")
        case same: True
        with w assms show ?thesis by simp
      next
        case False
        with w show ?thesis
          using ok space_ok_decrement [OF ok(1) N True] by simp
      qed
    next
      case False
      then have "js_le coerce (field lesson ''space'') 0"
        using N by (simp add: js_le_def)
      then show ?thesis
        using Inr Some assms by (simp add: put_decrement_def)
    qed
  qed
qed

theorem put_decrement_keeps_space_ok_witness:
  "list_all space_ok (lessonsCollection shop) \<and>
   list_all space_ok (lessonsCollection (snd (put_decrement nan_coerce shop math_id))) \<and>
   lessonsCollection (snd (put_decrement nan_coerce shop math_id)) =
     [AList.update ''space'' (JNum 4) math_lesson]"
proof -
  have h: "list_all space_ok (lessonsCollection shop)"
    by (simp add: store_eval space_ok_def)
  have "lessonsCollection (snd (put_decrement nan_coerce shop math_id)) =
     [AList.update ''space'' (JNum 4) math_lesson]"
    by (simp add: store_eval put_decrement_def js_le_def inc_op_def to_double_4)
  with h put_decrement_keeps_space_ok [OF h, of nan_coerce math_id] show ?thesis
    by blast
qed

theorem space_invariant_counterexample:
  "list_all space_ok (lessonsCollection shop) \<and>
   put_lesson reject_path shop math_id [(''space'', JNum (- 5))] =
     (json 200 (message ''Lesson updated successfully''),
      shop\<lparr>lessonsCollection := [AList.update ''space'' (JNum (- 5)) math_lesson]\<rparr>) \<and>
   field (AList.update ''space'' (JNum (- 5)) math_lesson) ''space'' = JNum (- 5) \<and>
   post_lessons shop ''64b7f3a2c9e1d4a5b6c7d8ea'' (AList.update ''space'' (JNum (- 1)) math_payload) =
     (json 201 (JObj [(''message'', JStr ''Lesson added successfully''),
                      (''lessonId'', JOid ''64b7f3a2c9e1d4a5b6c7d8ea'')]),
      shop\<lparr>lessonsCollection :=
        [math_lesson,
         (''_id'', JOid ''64b7f3a2c9e1d4a5b6c7d8ea'') #
           AList.update ''space'' (JNum (- 1)) math_payload]\<rparr>) \<and>
   put_decrement nan_coerce
     (shop\<lparr>lessonsCollection := [AList.update ''space'' (JNum (1 / 2)) math_lesson]\<rparr>) math_id =
     (json 200 (message ''Lesson space decremented successfully''),
      shop\<lparr>lessonsCollection := [AList.update ''space'' (JNum (- 1 / 2)) math_lesson]\<rparr>)"
proof -
  have "list_all space_ok (lessonsCollection shop)"
    by (simp add: store_eval space_ok_def)
  moreover have "put_lesson reject_path shop math_id [(''space'', JNum (- 5))] =
     (json 200 (message ''Lesson updated successfully''),
      shop\<lparr>lessonsCollection := [AList.update ''space'' (JNum (- 5)) math_lesson]\<rparr>)"
    by (simp add: store_eval put_lesson_def set_field_def plain_name_def)
  moreover have "field (AList.update ''space'' (JNum (- 5)) math_lesson) ''space'' = JNum (- 5)"
    by (rule field_update_same)
  moreover have
    "post_lessons shop ''64b7f3a2c9e1d4a5b6c7d8ea'' (AList.update ''space'' (JNum (- 1)) math_payload) =
     (json 201 (JObj [(''message'', JStr ''Lesson added successfully''),
                      (''lessonId'', JOid ''64b7f3a2c9e1d4a5b6c7d8ea'')]),
      shop\<lparr>lessonsCollection :=
        [math_lesson,
         (''_id'', JOid ''64b7f3a2c9e1d4a5b6c7d8ea'') #
           AList.update ''space'' (JNum (- 1)) math_payload]\<rparr>)"
    by (simp add: store_eval post_lessons_def insertOne_def is_array_def Let_def)
  moreover have "put_decrement nan_coerce
     (shop\<lparr>lessonsCollection := [AList.update ''space'' (JNum (1 / 2)) math_lesson]\<rparr>) math_id =
     (json 200 (message ''Lesson space decremented successfully''),
      shop\<lparr>lessonsCollection := [AList.update ''space'' (JNum (- 1 / 2)) math_lesson]\<rparr>)"
    by (simp add: store_eval put_decrement_def js_le_def inc_op_def to_double_minus_half)
  ultimately show ?thesis
    by blast
qed

section \<open>Creating a lesson\<close>

lemma all_required:
  "list_all (\<lambda>k. truthy (field b k)) required_fields \<longleftrightarrow>
     truthy (field b ''topic'') \<and> truthy (field b ''price'') \<and> truthy (field b ''location'')
     \<and> truthy (field b ''space'') \<and> truthy (field b ''category'') \<and> truthy (field b ''level'')
     \<and> truthy (field b ''duration'') \<and> truthy (field b ''image'') \<and> truthy (field b ''preview'')
     \<and> truthy (field b ''subject'')"
  unfolding required_fields_def by (simp only: list.pred_inject simp_thms)

lemma post_lessons_reject:
  assumes "k \<in> set required_fields" and "\<not> truthy (field req_body k)"
  shows "post_lessons db pk req_body =
           (json 400 (message ''Missing required lesson fields''), db)"
proof -
  have "\<not> list_all (\<lambda>k. truthy (field req_body k)) required_fields"
    using assms by (auto simp: list_all_iff)
  then show ?thesis
    unfolding all_required post_lessons_def Let_def by (simp only: de_Morgan_conj if_True)
qed

lemma insertOne_generated:
  assumes "field doc ''_id'' = JUndefined"
    and "\<not> list_ex (\<lambda>d. field d ''_id'' = JOid pk) coll"
  shows "insertOne coll pk doc =
           Inr (JOid pk, coll @ [(''_id'', JOid pk) # AList.delete ''_id'' doc])"
  using assms by (simp add: insertOne_def is_array_def Let_def)

lemma post_lessons_accept:
  assumes "list_all (\<lambda>k. truthy (field req_body k)) required_fields"
    and "\<not> list_ex (\<lambda>d. field d ''_id'' = JOid pk) (lessonsCollection db)"
  shows "post_lessons db pk req_body =
     (json 201 (JObj [(''message'', JStr ''Lesson added successfully''), (''lessonId'', JOid pk)]),
      db\<lparr>lessonsCollection := lessonsCollection db @
            [(''_id'', JOid pk) # map (\<lambda>k. (k, field req_body k)) required_fields]\<rparr>)"
proof -
  let ?nl = "map (\<lambda>k. (k, field req_body k)) required_fields"
  have id: "field ?nl ''_id'' = JUndefined"
    by (simp add: required_fields_def field_def)
  have del: "AList.delete ''_id'' ?nl = ?nl"
    by (simp add: required_fields_def)
  have ins: "insertOne (lessonsCollection db) pk ?nl =
     Inr (JOid pk, lessonsCollection db @ [(''_id'', JOid pk) # ?nl])"
    using insertOne_generated [OF id assms(2)] del by simp
  have nl:
    "[(''topic'', field req_body ''topic''), (''price'', field req_body ''price''),
      (''location'', field req_body ''location''), (''space'', field req_body ''space''),
      (''category'', field req_body ''category''), (''level'', field req_body ''level''),
      (''duration'', field req_body ''duration''), (''image'', field req_body ''image''),
      (''preview'', field req_body ''preview''), (''subject'', field req_body ''subject'')] = ?nl"
    by (simp add: required_fields_def)
  from assms(1) show ?thesis
    unfolding all_required post_lessons_def Let_def nl ins by simp
qed

lemma field_tabulate:
  "k \<in> set ks \<Longrightarrow> field (map (\<lambda>k. (k, f k)) ks) k = f k"
  by (induction ks) (auto simp: field_def)

lemma field_tabulate_absent:
  "k \<notin> set ks \<Longrightarrow> field (map (\<lambda>k. (k, f k)) ks) k = JUndefined"
  by (induction ks) (auto simp: field_def)

lemma field_Cons: "field ((k, v) # d) k' = (if k' = k then v else field d k')"
  by (simp add: field_def)

lemma id_not_required: "''_id'' \<notin> set required_fields"
  by (simp add: required_fields_def)

lemma math_payload_truthy: "list_all (\<lambda>k. truthy (field math_payload k)) required_fields"
  by (simp add: required_fields_def math_payload_def field_def)

lemma shop_fresh:
  "\<not> list_ex (\<lambda>d. field d ''_id'' = JOid ''64b7f3a2c9e1d4a5b6c7d8ea'') (lessonsCollection shop)"
  by (simp add: store_eval)

text \<open>
  Claim C5. A payload in which one of the ten required fields is absent or falsy
  (\<open>0\<close>, the empty string, \<open>false\<close>, \<open>null\<close>) is answered with 400 and the store
  is left as it was. A payload whose ten fields are all truthy, inserted under a
  generated id that the collection does not hold yet, is answered with 201 and
  that id, and one document with that id is added.
\<close>

theorem post_lessons_validation:
  "(k \<in> set required_fields \<and> \<not> truthy (field req_body k) \<longrightarrow>
      post_lessons db pk req_body =
        (json 400 (message ''Missing required lesson fields''), db)) \<and>
   (list_all (\<lambda>k. truthy (field req_body k)) required_fields \<and>
    \<not> list_ex (\<lambda>d. field d ''_id'' = JOid pk) (lessonsCollection db) \<longrightarrow>
      (\<exists>d. post_lessons db pk req_body =
              (json 201 (JObj [(''message'', JStr ''Lesson added successfully''),
                               (''lessonId'', JOid pk)]),
               db\<lparr>lessonsCollection := lessonsCollection db @ [d]\<rparr>) \<and>
            field d ''_id'' = JOid pk))"
proof (intro conjI impI)
  assume "k \<in> set required_fields \<and> \<not> truthy (field req_body k)"
  then show "post_lessons db pk req_body =
      (json 400 (message ''Missing required lesson fields''), db)"
    using post_lessons_reject by blast
next
  assume a: "list_all (\<lambda>k. truthy (field req_body k)) required_fields \<and>
    \<not> list_ex (\<lambda>d. field d ''_id'' = JOid pk) (lessonsCollection db)"
  let ?d = "(''_id'', JOid pk) # map (\<lambda>k. (k, field req_body k)) required_fields"
  have "post_lessons db pk req_body =
      (json 201 (JObj [(''message'', JStr ''Lesson added successfully''), (''lessonId'', JOid pk)]),
       db\<lparr>lessonsCollection := lessonsCollection db @ [?d]\<rparr>)"
    using post_lessons_accept a by blast
  moreover have "field ?d ''_id'' = JOid pk"
    by (simp add: field_Cons)
  ultimately show "\<exists>d. post_lessons db pk req_body =
              (json 201 (JObj [(''message'', JStr ''Lesson added successfully''),
                               (''lessonId'', JOid pk)]),
               db\<lparr>lessonsCollection := lessonsCollection db @ [d]\<rparr>) \<and>
            field d ''_id'' = JOid pk"
    by blast
qed

theorem post_lessons_validation_witness:
  "post_lessons shop ''64b7f3a2c9e1d4a5b6c7d8ea'' (AList.update ''price'' (JNum 0) math_payload) =
     (json 400 (message ''Missing required lesson fields''), shop) \<and>
   (\<exists>d. post_lessons shop ''64b7f3a2c9e1d4a5b6c7d8ea'' math_payload =
           (json 201 (JObj [(''message'', JStr ''Lesson added successfully''),
                            (''lessonId'', JOid ''64b7f3a2c9e1d4a5b6c7d8ea'')]),
            shop\<lparr>lessonsCollection := lessonsCollection shop @ [d]\<rparr>) \<and>
         field d ''_id'' = JOid ''64b7f3a2c9e1d4a5b6c7d8ea'')"
proof -
  have h1: "''price'' \<in> set required_fields"
    by (simp add: required_fields_def)
  have h2: "\<not> truthy (field (AList.update ''price'' (JNum 0) math_payload) ''price'')"
    by (simp add: field_update_same)
  from post_lessons_validation
    [of "''price''" "AList.update ''price'' (JNum 0) math_payload" shop "''64b7f3a2c9e1d4a5b6c7d8ea''"]
    h1 h2
  have "post_lessons shop ''64b7f3a2c9e1d4a5b6c7d8ea'' (AList.update ''price'' (JNum 0) math_payload) =
     (json 400 (message ''Missing required lesson fields''), shop)"
    by blast
  moreover from post_lessons_validation [of _ math_payload shop "''64b7f3a2c9e1d4a5b6c7d8ea''"]
    math_payload_truthy shop_fresh
  have "\<exists>d. post_lessons shop ''64b7f3a2c9e1d4a5b6c7d8ea'' math_payload =
           (json 201 (JObj [(''message'', JStr ''Lesson added successfully''),
                            (''lessonId'', JOid ''64b7f3a2c9e1d4a5b6c7d8ea'')]),
            shop\<lparr>lessonsCollection := lessonsCollection shop @ [d]\<rparr>) \<and>
         field d ''_id'' = JOid ''64b7f3a2c9e1d4a5b6c7d8ea''"
    by blast
  ultimately show ?thesis
    by blast
qed

text \<open>
  Claim C10. When the ten required fields of the payload are all truthy (and the
  generated id is new to the collection), the one document added has the fields
  \<open>_id\<close> and the ten required names, in that order and no others; \<open>_id\<close> is the
  generated id and each of the ten has the payload's value. A further field of
  the payload is absent from the stored document.
\<close>

theorem post_lessons_stores_ten_fields:
  assumes "list_all (\<lambda>k. truthy (field req_body k)) required_fields"
    and "\<not> list_ex (\<lambda>d. field d ''_id'' = JOid pk) (lessonsCollection db)"
  shows "\<exists>d. snd (post_lessons db pk req_body) =
                db\<lparr>lessonsCollection := lessonsCollection db @ [d]\<rparr> \<and>
              map fst d = ''_id'' # required_fields \<and>
              field d ''_id'' = JOid pk \<and>
              (\<forall>k\<in>set required_fields. field d k = field req_body k) \<and>
              (\<forall>k. k \<notin> set (''_id'' # required_fields) \<longrightarrow> field d k = JUndefined)"
proof -
  let ?d = "(''_id'', JOid pk) # map (\<lambda>k. (k, field req_body k)) required_fields"
  have a: "snd (post_lessons db pk req_body) = db\<lparr>lessonsCollection := lessonsCollection db @ [?d]\<rparr>"
    using post_lessons_accept [OF assms] by simp
  have b: "map fst ?d = ''_id'' # required_fields"
    by (simp add: comp_def)
  have c: "field ?d ''_id'' = JOid pk"
    by (simp add: field_Cons)
  have d: "\<forall>k\<in>set required_fields. field ?d k = field req_body k"
    using id_not_required by (auto simp: field_Cons field_tabulate)
  have e: "\<forall>k. k \<notin> set (''_id'' # required_fields) \<longrightarrow> field ?d k = JUndefined"
    by (simp add: field_Cons field_tabulate_absent)
  show ?thesis
    by (rule exI [of _ ?d]) (intro conjI a b c d e)
qed

theorem post_lessons_stores_ten_fields_witness:
  "\<exists>d. snd (post_lessons shop ''64b7f3a2c9e1d4a5b6c7d8ea'' ((''extra'', JNum 1) # math_payload)) =
          shop\<lparr>lessonsCollection := lessonsCollection shop @ [d]\<rparr> \<and>
        map fst d = ''_id'' # required_fields \<and>
        field d ''extra'' = JUndefined"
proof -
  have h1: "list_all (\<lambda>k. truthy (field ((''extra'', JNum 1) # math_payload) k)) required_fields"
    by (simp add: required_fields_def math_payload_def field_def)
  have h2: "''extra'' \<notin> set (''_id'' # required_fields)"
    by (simp add: required_fields_def)
  from post_lessons_stores_ten_fields [OF h1 shop_fresh] obtain d where
    d: "snd (post_lessons shop ''64b7f3a2c9e1d4a5b6c7d8ea'' ((''extra'', JNum 1) # math_payload)) =
          shop\<lparr>lessonsCollection := lessonsCollection shop @ [d]\<rparr>"
      "map fst d = ''_id'' # required_fields"
      "\<forall>k. k \<notin> set (''_id'' # required_fields) \<longrightarrow> field d k = JUndefined"
    by (elim exE conjE)
  from d(3) h2 have "field d ''extra'' = JUndefined"
    by (elim allE [of _ "''extra''"] impE)
  with d(1,2) show ?thesis
    by (intro exI [of _ d] conjI)
qed

section \<open>Creating an order\<close>

text \<open>
  Claim C8. Whatever error the insert raises, the order handler answers 400 with
  the message \<^verbatim>\<open>Insert failed\<close> and leaves the store as it was. When the insert
  returns, the handler answers 201 with \<^verbatim>\<open>Order saved successfully\<close>, and one
  document is added to the orders: it has every field of the supplied object with
  the supplied value, an \<open>_id\<close> the object brings is kept, and a missing one is
  the generated id. No field is inspected: the outcome depends on \<open>_id\<close> alone.
\<close>

theorem post_orders_outcomes:
  "(\<forall>err. insertOne (ordersCollection db) pk order = Inl err \<longrightarrow>
      post_orders db pk order = (json 400 (message ''Insert failed''), db)) \<and>
   (\<forall>r. insertOne (ordersCollection db) pk order = Inr r \<longrightarrow>
      (\<exists>d. post_orders db pk order =
              (json 201 (message ''Order saved successfully''),
               db\<lparr>ordersCollection := ordersCollection db @ [d]\<rparr>) \<and>
            (\<forall>k. k \<noteq> ''_id'' \<longrightarrow> map_of d k = map_of order k) \<and>
            AList.delete ''_id'' d = AList.delete ''_id'' order \<and>
            field d ''_id'' =
              (if field order ''_id'' = JUndefined \<or> field order ''_id'' = JNull
               then JOid pk else field order ''_id''))) \<and>
   (insertOne (ordersCollection db) pk order = Inl DuplicateKey \<or>
    insertOne (ordersCollection db) pk order = Inl BadValue \<or>
    (\<exists>r. insertOne (ordersCollection db) pk order = Inr r))"
proof (intro conjI allI impI)
  fix err
  assume "insertOne (ordersCollection db) pk order = Inl err"
  then show "post_orders db pk order = (json 400 (message ''Insert failed''), db)"
    by (simp add: post_orders_def)
next
  fix r
  assume r: "insertOne (ordersCollection db) pk order = Inr r"
  let ?key = "if field order ''_id'' = JUndefined \<or> field order ''_id'' = JNull
              then JOid pk else field order ''_id''"
  let ?d = "(''_id'', ?key) # AList.delete ''_id'' order"
  from r have "r = (?key, ordersCollection db @ [?d])"
    by (auto simp: insertOne_def Let_def split: if_splits)
  with r have "post_orders db pk order =
      (json 201 (message ''Order saved successfully''),
       db\<lparr>ordersCollection := ordersCollection db @ [?d]\<rparr>)"
    by (simp add: post_orders_def)
  moreover have "\<forall>k. k \<noteq> ''_id'' \<longrightarrow> map_of ?d k = map_of order k"
    by simp
  moreover have "AList.delete ''_id'' ?d = AList.delete ''_id'' order"
    by (simp add: delete_idem)
  moreover have "field ?d ''_id'' = ?key"
    by (simp only: field_Cons simp_thms if_True)
  ultimately show "\<exists>d. post_orders db pk order =
              (json 201 (message ''Order saved successfully''),
               db\<lparr>ordersCollection := ordersCollection db @ [d]\<rparr>) \<and>
            (\<forall>k. k \<noteq> ''_id'' \<longrightarrow> map_of d k = map_of order k) \<and>
            AList.delete ''_id'' d = AList.delete ''_id'' order \<and>
            field d ''_id'' = ?key"
    by blast
next
  show "insertOne (ordersCollection db) pk order = Inl DuplicateKey \<or>
    insertOne (ordersCollection db) pk order = Inl BadValue \<or>
    (\<exists>r. insertOne (ordersCollection db) pk order = Inr r)"
    by (simp add: insertOne_def Let_def)
qed

theorem post_orders_outcomes_witness:
  "post_orders (shop\<lparr>ordersCollection := [first_order]\<rparr>) math_id
     [(''_id'', JStr ''o1''), (''qty'', JNum 3)] =
     (json 400 (message ''Insert failed''), shop\<lparr>ordersCollection := [first_order]\<rparr>) \<and>
   (\<exists>d. post_orders shop math_id [(''qty'', JNum 3), (''anything'', JNull)] =
           (json 201 (message ''Order saved successfully''),
            shop\<lparr>ordersCollection := ordersCollection shop @ [d]\<rparr>) \<and>
         AList.delete ''_id'' d = [(''qty'', JNum 3), (''anything'', JNull)] \<and>
         field d ''_id'' = JOid math_id)"
proof -
  let ?db = "shop\<lparr>ordersCollection := [first_order]\<rparr>"
  let ?o = "[(''qty'', JNum 3), (''anything'', JNull)]"
  have f: "insertOne (ordersCollection ?db) math_id [(''_id'', JStr ''o1''), (''qty'', JNum 3)] =
      Inl DuplicateKey"
    by (simp add: insertOne_def is_array_def field_def shop_def first_order_def Let_def)
  have s: "insertOne (ordersCollection shop) math_id ?o =
      Inr (JOid math_id, [(''_id'', JOid math_id) # ?o])"
    by (simp add: insertOne_def is_array_def field_def shop_def Let_def)
  have u: "field ?o ''_id'' = JUndefined"
    by (simp add: field_def)
  have del: "AList.delete ''_id'' ?o = ?o"
    by simp
  note fails = post_orders_outcomes [THEN conjunct1, rule_format]
  note stores = post_orders_outcomes [THEN conjunct2, THEN conjunct1, rule_format]
  have a: "post_orders ?db math_id [(''_id'', JStr ''o1''), (''qty'', JNum 3)] =
     (json 400 (message ''Insert failed''), ?db)"
    by (rule fails [OF f])
  from stores [OF s] obtain d where
    d: "post_orders shop math_id ?o =
           (json 201 (message ''Order saved successfully''),
            shop\<lparr>ordersCollection := ordersCollection shop @ [d]\<rparr>)"
      "AList.delete ''_id'' d = AList.delete ''_id'' ?o"
      "field d ''_id'' =
         (if field ?o ''_id'' = JUndefined \<or> field ?o ''_id'' = JNull
          then JOid math_id else field ?o ''_id'')"
    by (elim exE conjE)
  from d(2) del have e: "AList.delete ''_id'' d = ?o"
    by simp
  from d(3) u have g: "field d ''_id'' = JOid math_id"
    by simp
  have "\<exists>d. post_orders shop math_id ?o =
           (json 201 (message ''Order saved successfully''),
            shop\<lparr>ordersCollection := ordersCollection shop @ [d]\<rparr>) \<and>
         AList.delete ''_id'' d = ?o \<and>
         field d ''_id'' = JOid math_id"
    by (intro exI [of _ d] conjI d(1) e g)
  with a show ?thesis
    by (intro conjI)
qed

section \<open>The partial update\<close>

lemma set_op_plain:
  "list_all (\<lambda>k. plain_name k \<and> k \<noteq> ''_id'') (map fst us) \<Longrightarrow>
   set_op path us = Inr (\<lambda>d. Inr (fold (\<lambda>(k, v). AList.update k v) us d))"
  by (induction us) (auto simp: set_field_def)

lemma map_of_fold_update:
  "map_of (fold (\<lambda>(k, v). AList.update k v) us d) = map_of d ++ map_of (rev us)"
  by (induction us arbitrary: d)
    (auto simp: update_conv' map_add_def fun_eq_iff split: option.splits)

lemma field_fold_update_other:
  assumes "k \<notin> fst ` set us"
  shows "field (fold (\<lambda>(k, v). AList.update k v) us d) k = field d k"
proof -
  from assms have "map_of (rev us) k = None"
    by (simp add: map_of_eq_None_iff)
  then show ?thesis
    by (simp add: field_def map_of_fold_update map_add_def)
qed

lemma field_fold_update_listed:
  assumes "distinct (map fst us)" and "(k, v) \<in> set us"
  shows "field (fold (\<lambda>(k, v). AList.update k v) us d) k = v"
proof -
  from assms(1) have "distinct (map fst (rev us))"
    by (simp add: rev_map [symmetric])
  moreover from assms(2) have "(k, v) \<in> set (rev us)"
    by simp
  ultimately have "map_of (rev us) k = Some v"
    by (rule map_of_is_SomeI)
  then show ?thesis
    by (simp add: field_def map_of_fold_update map_add_def)
qed

lemma put_lesson_empty:
  "put_lesson path db lessonId [] = (json 400 (message ''No fields provided to update''), db)"
  by (simp add: put_lesson_def)

text \<open>
  Claim C7, as amended. An empty mapping is answered with 400 and the store is
  left as it was. Let the mapping be non-empty with plain top-level field names
  other than \<open>_id\<close> as its keys. Sent to an identifier under which storage holds
  no lesson, it is answered with 404, the store left as it was. Sent to the id of
  a stored lesson, each key listed once, it is answered with 200; the store then
  differs in that one document only, where every listed field has the listed
  value and every field not listed is as before.
\<close>

theorem put_lesson_partial_update:
  "put_lesson path db lessonId [] = (json 400 (message ''No fields provided to update''), db) \<and>
   (updates \<noteq> [] \<and> ObjectId lessonId = Inr i \<and> findOne (lessonsCollection db) i = None \<and>
    list_all (\<lambda>k. plain_name k \<and> k \<noteq> ''_id'') (map fst updates) \<longrightarrow>
      put_lesson path db lessonId updates = (json 404 (message ''Lesson not found''), db)) \<and>
   (updates \<noteq> [] \<and> ObjectId lessonId = Inr i \<and>
    findOne (lessonsCollection db) i = Some lesson \<and>
    list_all (\<lambda>k. plain_name k \<and> k \<noteq> ''_id'') (map fst updates) \<and>
    distinct (map fst updates) \<longrightarrow>
      (\<exists>pre post d'.
         lessonsCollection db = pre @ lesson # post \<and>
         put_lesson path db lessonId updates =
           (json 200 (message ''Lesson updated successfully''),
            db\<lparr>lessonsCollection := pre @ d' # post\<rparr>) \<and>
         (\<forall>k v. (k, v) \<in> set updates \<longrightarrow> field d' k = v) \<and>
         (\<forall>k. k \<notin> fst ` set updates \<longrightarrow> field d' k = field lesson k)))"
proof (intro conjI impI)
  show "put_lesson path db lessonId [] =
      (json 400 (message ''No fields provided to update''), db)"
    by (rule put_lesson_empty)
next
  assume a: "updates \<noteq> [] \<and> ObjectId lessonId = Inr i \<and>
    findOne (lessonsCollection db) i = None \<and>
    list_all (\<lambda>k. plain_name k \<and> k \<noteq> ''_id'') (map fst updates)"
  then have "set_op path updates =
      Inr (\<lambda>d. Inr (fold (\<lambda>(k, v). AList.update k v) updates d))"
    using set_op_plain by blast
  with a show "put_lesson path db lessonId updates =
      (json 404 (message ''Lesson not found''), db)"
    by (simp add: put_lesson_def updateOne_unmatched)
next
  assume a: "updates \<noteq> [] \<and> ObjectId lessonId = Inr i \<and>
    findOne (lessonsCollection db) i = Some lesson \<and>
    list_all (\<lambda>k. plain_name k \<and> k \<noteq> ''_id'') (map fst updates) \<and>
    distinct (map fst updates)"
  then have found: "findOne (lessonsCollection db) i = Some lesson"
    and keys: "list_all (\<lambda>k. plain_name k \<and> k \<noteq> ''_id'') (map fst updates)"
    and dist: "distinct (map fst updates)"
    by simp_all
  from findOne_Some_split [OF found] obtain pre post where
    split: "lessonsCollection db = pre @ lesson # post" "findOne pre i = None"
      "field lesson ''_id'' = JOid i"
    by blast
  let ?d' = "fold (\<lambda>(k, v). AList.update k v) updates lesson"
  let ?upd = "\<lambda>d. Inr (fold (\<lambda>(k, v). AList.update k v) updates d) :: error + document"
  have parsed: "set_op path updates = Inr ?upd"
    by (rule set_op_plain [OF keys])
  have "updateOne (lessonsCollection db) i ?upd =
      Inr (\<lparr>matchedCount = 1, modifiedCount = (if ?d' = lesson then 0 else 1)\<rparr>,
           pre @ ?d' # post)"
    using updateOne_matched [OF split(2,3), of post ?upd] split(1)
    by simp
  with a parsed have r: "put_lesson path db lessonId updates =
      (json 200 (message ''Lesson updated successfully''),
       db\<lparr>lessonsCollection := pre @ ?d' # post\<rparr>)"
    by (simp add: put_lesson_def)
  have listed: "\<forall>k v. (k, v) \<in> set updates \<longrightarrow> field ?d' k = v"
    using field_fold_update_listed [OF dist] by blast
  have others: "\<forall>k. k \<notin> fst ` set updates \<longrightarrow> field ?d' k = field lesson k"
    using field_fold_update_other by blast
  show "\<exists>pre post d'.
         lessonsCollection db = pre @ lesson # post \<and>
         put_lesson path db lessonId updates =
           (json 200 (message ''Lesson updated successfully''),
            db\<lparr>lessonsCollection := pre @ d' # post\<rparr>) \<and>
         (\<forall>k v. (k, v) \<in> set updates \<longrightarrow> field d' k = v) \<and>
         (\<forall>k. k \<notin> fst ` set updates \<longrightarrow> field d' k = field lesson k)"
    by (intro exI [of _ pre] exI [of _ post] exI [of _ ?d'] conjI split(1) r listed others)
qed

theorem put_lesson_partial_update_witness:
  "put_lesson reject_path shop ''64b7f3a2c9e1d4a5b6c7d8e0'' [(''topic'', JStr ''X'')] =
     (json 404 (message ''Lesson not found''), shop) \<and>
   (\<exists>pre post d'.
      lessonsCollection shop = pre @ math_lesson # post \<and>
      put_lesson reject_path shop math_id [(''topic'', JStr ''X'')] =
        (json 200 (message ''Lesson updated successfully''),
         shop\<lparr>lessonsCollection := pre @ d' # post\<rparr>) \<and>
      field d' ''topic'' = JStr ''X'' \<and>
      field d' ''space'' = field math_lesson ''space'')"
proof -
  have ne: "[(''topic'', JStr ''X'')] \<noteq> []"
    by simp
  have h1: "ObjectId ''64b7f3a2c9e1d4a5b6c7d8e0'' = Inr ''64b7f3a2c9e1d4a5b6c7d8e0''"
    by (simp add: store_eval)
  have h2: "findOne (lessonsCollection shop) ''64b7f3a2c9e1d4a5b6c7d8e0'' = None"
    by (simp add: store_eval)
  have h3: "ObjectId math_id = Inr math_id"
    by (simp add: store_eval)
  have h4: "findOne (lessonsCollection shop) math_id = Some math_lesson"
    by (simp add: store_eval)
  have h5: "list_all (\<lambda>k. plain_name k \<and> k \<noteq> ''_id'') (map fst [(''topic'', JStr ''X'')])"
    by (simp add: plain_name_def)
  have h6: "distinct (map fst [(''topic'', JStr ''X'')])"
    by simp
  have m: "(''topic'', JStr ''X'') \<in> set [(''topic'', JStr ''X'')]"
    by simp
  have n: "''space'' \<notin> fst ` set [(''topic'', JStr ''X'')]"
    by simp
  have nf: "put_lesson reject_path shop ''64b7f3a2c9e1d4a5b6c7d8e0'' [(''topic'', JStr ''X'')] =
     (json 404 (message ''Lesson not found''), shop)"
    by (rule put_lesson_partial_update [THEN conjunct2, THEN conjunct1, THEN mp])
      (rule conjI ne h1 h2 h5)+
  have "\<exists>pre post d'.
         lessonsCollection shop = pre @ math_lesson # post \<and>
         put_lesson reject_path shop math_id [(''topic'', JStr ''X'')] =
           (json 200 (message ''Lesson updated successfully''),
            shop\<lparr>lessonsCollection := pre @ d' # post\<rparr>) \<and>
         (\<forall>k v. (k, v) \<in> set [(''topic'', JStr ''X'')] \<longrightarrow> field d' k = v) \<and>
         (\<forall>k. k \<notin> fst ` set [(''topic'', JStr ''X'')] \<longrightarrow> field d' k = field math_lesson k)"
    by (rule put_lesson_partial_update [THEN conjunct2, THEN conjunct2, THEN mp])
      (rule conjI ne h3 h4 h5 h6)+
  then obtain pre post d' where
    d: "lessonsCollection shop = pre @ math_lesson # post"
      "put_lesson reject_path shop math_id [(''topic'', JStr ''X'')] =
           (json 200 (message ''Lesson updated successfully''),
            shop\<lparr>lessonsCollection := pre @ d' # post\<rparr>)"
      "\<forall>k v. (k, v) \<in> set [(''topic'', JStr ''X'')] \<longrightarrow> field d' k = v"
      "\<forall>k. k \<notin> fst ` set [(''topic'', JStr ''X'')] \<longrightarrow> field d' k = field math_lesson k"
    by (elim exE conjE)
  from d(3) m have t: "field d' ''topic'' = JStr ''X''"
    by (elim allE [of _ "''topic''"] allE [of _ "JStr ''X''"] impE)
  from d(4) n have u: "field d' ''space'' = field math_lesson ''space''"
    by (elim allE [of _ "''space''"] impE)
  have "\<exists>pre post d'.
      lessonsCollection shop = pre @ math_lesson # post \<and>
      put_lesson reject_path shop math_id [(''topic'', JStr ''X'')] =
        (json 200 (message ''Lesson updated successfully''),
         shop\<lparr>lessonsCollection := pre @ d' # post\<rparr>) \<and>
      field d' ''topic'' = JStr ''X'' \<and>
      field d' ''space'' = field math_lesson ''space''"
    by (intro exI [of _ pre] exI [of _ post] exI [of _ d'] conjI d(1,2) t u)
  with nf show ?thesis
    by (intro conjI)
qed

theorem put_lesson_id_counterexample:
  "findOne (lessonsCollection shop) math_id = Some math_lesson \<and>
   [(''_id'', JStr ''x''), (''topic'', JStr ''X'')] \<noteq> [] \<and>
   put_lesson reject_path shop math_id [(''_id'', JStr ''x''), (''topic'', JStr ''X'')] =
     (json 500 (message ''Server error''), shop) \<and>
   field math_lesson ''_id'' \<noteq> JStr ''x'' \<and>
   field math_lesson ''topic'' \<noteq> JStr ''X''"
  by (simp add: store_eval put_lesson_def set_field_def plain_name_def)

text \<open>
  Claim C9, as amended. The id string is not 24 hexadecimal digits. The
  decrement answers 500 with \<^verbatim>\<open>Server error\<close>, and so does the partial update
  when its mapping is not empty; with an empty mapping the partial update answers
  400 with \<^verbatim>\<open>No fields provided to update\<close>, since that check comes before the
  identifier is built. In every case the store is left as it was.
\<close>

theorem malformed_id_responses:
  assumes "\<not> (length lessonId = 24 \<and> list_all is_hex lessonId)"
  shows "put_decrement coerce db lessonId = (json 500 (message ''Server error''), db) \<and>
         (updates \<noteq> [] \<longrightarrow>
            put_lesson path db lessonId updates = (json 500 (message ''Server error''), db)) \<and>
         put_lesson path db lessonId [] =
           (json 400 (message ''No fields provided to update''), db)"
proof -
  from assms have bad: "ObjectId lessonId = Inl BSONError"
    by (simp add: ObjectId_def)
  then have "put_decrement coerce db lessonId = (json 500 (message ''Server error''), db)"
    by (simp add: put_decrement_def)
  moreover from bad have "updates \<noteq> [] \<longrightarrow>
      put_lesson path db lessonId updates = (json 500 (message ''Server error''), db)"
    by (simp add: put_lesson_def)
  ultimately show ?thesis
    using put_lesson_empty by (intro conjI)
qed

theorem malformed_id_responses_witness:
  "put_decrement nan_coerce shop ''not-an-id'' = (json 500 (message ''Server error''), shop) \<and>
   put_lesson reject_path shop ''not-an-id'' [(''topic'', JStr ''X'')] =
     (json 500 (message ''Server error''), shop) \<and>
   put_lesson reject_path shop ''not-an-id'' [] =
     (json 400 (message ''No fields provided to update''), shop)"
proof -
  have h: "\<not> (length ''not-an-id'' = 24 \<and> list_all is_hex ''not-an-id'')"
    by simp
  have ne: "[(''topic'', JStr ''X'')] \<noteq> []"
    by simp
  note r = malformed_id_responses [OF h, of nan_coerce shop "[(''topic'', JStr ''X'')]" reject_path]
  show ?thesis
    by (intro conjI r [THEN conjunct1] r [THEN conjunct2, THEN conjunct1, THEN mp, OF ne]
        r [THEN conjunct2, THEN conjunct2])
qed

theorem malformed_id_counterexample:
  "\<not> (length ''not-an-id'' = 24 \<and> list_all is_hex ''not-an-id'') \<and>
   put_lesson reject_path shop ''not-an-id'' [] =
     (json 400 (message ''No fields provided to update''), shop) \<and>
   status (fst (put_lesson reject_path shop ''not-an-id'' [])) \<noteq> 500"
  by (simp add: put_lesson_def json_def)

section \<open>The text search\<close>










end
